theory Spec2Isabelle
  imports Complex_Main
begin

section \<open>Data model of \<open>L1MuonRecoPropagator.cc\<close>\<close>

text \<open>
  The module extrapolates the inner track of every muon of an event to two planes and one
  cylinder. The geometry classes, the magnetic field and the two propagators come from
  the host framework and are not part of the file; they enter the model as data and as
  function parameters.

  A C++ \<open>double\<close> is modelled as a \<open>real\<close>: rounding, overflow and NaN inputs are not
  modelled. The one place where the source can leave the reals, the unguarded division
  \<open>xx/rr\<close>, is modelled by \<open>double_div\<close> below.
\<close>

subsection \<open>Points, vectors and rotations\<close>

text \<open>
  A triple of coordinates with the accessors \<open>x()\<close>, \<open>y()\<close>, \<open>z()\<close>. The selectors are
  named \<open>coord_x\<close>, \<open>coord_y\<close>, \<open>coord_z\<close> so that \<open>x\<close>, \<open>y\<close>, \<open>z\<close> stay free for variables.
\<close>

datatype Vec3 = Vec3 (coord_x: real) (coord_y: real) (coord_z: real)

type_synonym GlobalPoint = Vec3
type_synonym GlobalVector = Vec3
type_synonym PositionType = Vec3

text \<open>A rotation is its three rows; a default-constructed one (\<open>RotationType rot;\<close>) is the identity.\<close>

type_synonym RotationType = "Vec3 \<times> Vec3 \<times> Vec3"

definition RotationType_default :: RotationType where
  "RotationType_default = (Vec3 1 0 0, Vec3 0 1 0, Vec3 0 0 1)"

subsection \<open>Tracks and muons\<close>

record Track =
  innerPosition :: Vec3
  innerMomentum :: Vec3
  charge :: int

text \<open>Of a \<open>pat::Muon\<close> the driver reads only \<open>innerTrack()\<close>.\<close>

record Muon =
  innerTrack :: Track

subsection \<open>Free trajectory state, surfaces, trajectory state on a surface\<close>

text \<open>\<open>'b\<close> is the type of the magnetic field, which the module only passes on.\<close>

record 'b FreeTrajectoryState =
  position :: GlobalPoint
  momentum :: GlobalVector
  fts_charge :: int
  field :: 'b

datatype Surface =
    Plane PositionType RotationType
  | Cylinder PositionType RotationType real

text \<open>
  \<open>Plane::build(pos, rot)\<close> and \<open>Cylinder::build(pos, rot, rho)\<close> only store their
  arguments.
\<close>

definition Plane_build :: "PositionType \<Rightarrow> RotationType \<Rightarrow> Surface" where
  "Plane_build pos rot = Plane pos rot"

definition Cylinder_build :: "PositionType \<Rightarrow> RotationType \<Rightarrow> real \<Rightarrow> Surface" where
  "Cylinder_build pos rot rho = Cylinder pos rot rho"

text \<open>
  A trajectory state on a surface: the validity flag and the global position. The
  position of an invalid state carries no meaning.
\<close>

record TrajectoryStateOnSurface =
  isValid :: bool
  globalPosition :: GlobalPoint

text \<open>A default-constructed state (\<open>TrajectoryStateOnSurface recoProp;\<close>) is invalid.\<close>

definition TrajectoryStateOnSurface_default :: TrajectoryStateOnSurface where
  "TrajectoryStateOnSurface_default = \<lparr>isValid = False, globalPosition = Vec3 0 0 0\<rparr>"

subsection \<open>Propagators and the module's members\<close>

text \<open>
  A propagator transports a free state to a surface and answers with a trajectory state
  on that surface, valid or not: \<open>propagate(recoStart, surface)\<close>.
\<close>

type_synonym 'b Propagator = "'b FreeTrajectoryState \<Rightarrow> Surface \<Rightarrow> TrajectoryStateOnSurface"

text \<open>The private members of the class \<open>L1MuonRecoPropagator\<close>.\<close>

record 'b L1MuonRecoPropagator =
  theBField :: 'b
  mucand :: "Muon list"
  propagatorAlong :: "'b Propagator"
  propagatorOpposite :: "'b Propagator"
  tsos :: TrajectoryStateOnSurface

text \<open>What \<open>produce\<close> fetches from the event and from the event setup.\<close>

record Event =
  slimmedMuons :: "Muon list"

record 'b EventSetup =
  IdealMagneticFieldRecord :: 'b
  SmartPropagatorAny :: "'b Propagator"
  SmartPropagatorAnyOpposite :: "'b Propagator"

subsection \<open>The log of calls\<close>

text \<open>
  The order of the calls the module makes is part of its behaviour. Every function of the
  model returns, next to its value, the list of the calls it made, oldest first: the
  entry into one of the two extrapolation methods, a call of \<open>propagate\<close> on one of the
  two propagators, and a call of \<open>globalPosition()\<close> on a trajectory state.
\<close>

datatype Direction = Along | Opposite

datatype 'b Call =
    Enter_surfExtrapTrkSam Track real
  | Enter_cylExtrapTrkSam Track real
  | Propagate Direction "'b FreeTrajectoryState" Surface
  | Read_globalPosition TrajectoryStateOnSurface

section \<open>The extrapolation engine\<close>

definition freeTrajStateMuon :: "'b L1MuonRecoPropagator \<Rightarrow> Track \<Rightarrow> 'b FreeTrajectoryState" where
  "freeTrajStateMuon self track =
     (let innerPoint = Vec3 (coord_x (innerPosition track)) (coord_y (innerPosition track))
                            (coord_z (innerPosition track));
          innerVec = Vec3 (coord_x (innerMomentum track)) (coord_y (innerMomentum track))
                          (coord_z (innerMomentum track));
          recoStart = \<lparr>position = innerPoint, momentum = innerVec,
                       fts_charge = charge track, field = theBField self\<rparr>
      in recoStart)"

definition surfExtrapTrkSam ::
  "'b L1MuonRecoPropagator \<Rightarrow> Track \<Rightarrow> real \<Rightarrow> TrajectoryStateOnSurface \<times> 'b Call list" where
  "surfExtrapTrkSam self track z =
     (let pos = Vec3 0 0 z;
          rot = RotationType_default;
          myPlane = Plane_build pos rot;
          recoStart = freeTrajStateMuon self track;
          recoProp = propagatorAlong self recoStart myPlane
      in if \<not> isValid recoProp
         then (propagatorOpposite self recoStart myPlane,
               [Enter_surfExtrapTrkSam track z, Propagate Along recoStart myPlane,
                Propagate Opposite recoStart myPlane])
         else (recoProp,
               [Enter_surfExtrapTrkSam track z, Propagate Along recoStart myPlane]))"

definition cylExtrapTrkSam ::
  "'b L1MuonRecoPropagator \<Rightarrow> Track \<Rightarrow> real \<Rightarrow> TrajectoryStateOnSurface \<times> 'b Call list" where
  "cylExtrapTrkSam self track rho =
     (let pos = Vec3 0 0 0;
          rot = RotationType_default;
          myCylinder = Cylinder_build pos rot rho;
          recoStart = freeTrajStateMuon self track;
          recoProp = propagatorAlong self recoStart myCylinder
      in if \<not> isValid recoProp
         then (propagatorOpposite self recoStart myCylinder,
               [Enter_cylExtrapTrkSam track rho, Propagate Along recoStart myCylinder,
                Propagate Opposite recoStart myCylinder])
         else (recoProp,
               [Enter_cylExtrapTrkSam track rho, Propagate Along recoStart myCylinder]))"

text \<open>The calls of \<open>propagate\<close> in a log, in order.\<close>

fun propagations :: "'b Call list \<Rightarrow> (Direction \<times> 'b FreeTrajectoryState \<times> Surface) list" where
  "propagations [] = []"
| "propagations (Propagate d f s # cs) = (d, f, s) # propagations cs"
| "propagations (c # cs) = propagations cs"

section \<open>The extrapolation engine with the calls that can throw\<close>

text \<open>
  The two methods contain no \<open>throw\<close>, no \<open>try\<close> and no \<open>catch\<close>. Two kinds of call in them
  can still throw in the host framework: the dereference \<open>track->\<close> of a null track
  reference, and a call of \<open>propagate\<close>. The engine above takes both to return. The
  definitions of this section follow the same text of the source with these calls
  allowed to throw: a track reference may be null, and a propagator answers with a state
  or with an exception of some type \<open>'e\<close>. An exception ends the method at the call that
  raised it. The members the methods read (the field and the two propagators) are passed
  as arguments; next to the outcome each method returns the calls of \<open>propagate\<close> it made.
\<close>

datatype 'e Raised = InvalidReference | Thrown 'e

type_synonym TrackRef = "Track option"

type_synonym ('b, 'e) ThrowingPropagator =
  "'b FreeTrajectoryState \<Rightarrow> Surface \<Rightarrow> 'e + TrajectoryStateOnSurface"

definition freeTrajStateMuon_exn :: "'b \<Rightarrow> TrackRef \<Rightarrow> 'e Raised + 'b FreeTrajectoryState" where
  "freeTrajStateMuon_exn bField track =
     (case track of
        None \<Rightarrow> Inl InvalidReference
      | Some t \<Rightarrow>
          (let innerPoint = Vec3 (coord_x (innerPosition t)) (coord_y (innerPosition t))
                                 (coord_z (innerPosition t));
               innerVec = Vec3 (coord_x (innerMomentum t)) (coord_y (innerMomentum t))
                               (coord_z (innerMomentum t));
               recoStart = \<lparr>position = innerPoint, momentum = innerVec,
                            fts_charge = charge t, field = bField\<rparr>
           in Inr recoStart))"

definition surfExtrapTrkSam_exn ::
  "'b \<Rightarrow> ('b, 'e) ThrowingPropagator \<Rightarrow> ('b, 'e) ThrowingPropagator \<Rightarrow> TrackRef \<Rightarrow> real \<Rightarrow>
     ('e Raised + TrajectoryStateOnSurface) \<times> (Direction \<times> 'b FreeTrajectoryState \<times> Surface) list" where
  "surfExtrapTrkSam_exn bField along opposite track z =
     (let pos = Vec3 0 0 z;
          rot = RotationType_default;
          myPlane = Plane_build pos rot
      in case freeTrajStateMuon_exn bField track of
           Inl e \<Rightarrow> (Inl e, [])
         | Inr recoStart \<Rightarrow>
             (case along recoStart myPlane of
                Inl e \<Rightarrow> (Inl (Thrown e), [(Along, recoStart, myPlane)])
              | Inr recoProp \<Rightarrow>
                  if \<not> isValid recoProp
                  then (case opposite recoStart myPlane of
                          Inl e \<Rightarrow> (Inl (Thrown e),
                                    [(Along, recoStart, myPlane), (Opposite, recoStart, myPlane)])
                        | Inr recoProp2 \<Rightarrow> (Inr recoProp2,
                                    [(Along, recoStart, myPlane), (Opposite, recoStart, myPlane)]))
                  else (Inr recoProp, [(Along, recoStart, myPlane)])))"

definition cylExtrapTrkSam_exn ::
  "'b \<Rightarrow> ('b, 'e) ThrowingPropagator \<Rightarrow> ('b, 'e) ThrowingPropagator \<Rightarrow> TrackRef \<Rightarrow> real \<Rightarrow>
     ('e Raised + TrajectoryStateOnSurface) \<times> (Direction \<times> 'b FreeTrajectoryState \<times> Surface) list" where
  "cylExtrapTrkSam_exn bField along opposite track rho =
     (let pos = Vec3 0 0 0;
          rot = RotationType_default;
          myCylinder = Cylinder_build pos rot rho
      in case freeTrajStateMuon_exn bField track of
           Inl e \<Rightarrow> (Inl e, [])
         | Inr recoStart \<Rightarrow>
             (case along recoStart myCylinder of
                Inl e \<Rightarrow> (Inl (Thrown e), [(Along, recoStart, myCylinder)])
              | Inr recoProp \<Rightarrow>
                  if \<not> isValid recoProp
                  then (case opposite recoStart myCylinder of
                          Inl e \<Rightarrow> (Inl (Thrown e),
                                    [(Along, recoStart, myCylinder), (Opposite, recoStart, myCylinder)])
                        | Inr recoProp2 \<Rightarrow> (Inr recoProp2,
                                    [(Along, recoStart, myCylinder), (Opposite, recoStart, myCylinder)]))
                  else (Inr recoProp, [(Along, recoStart, myCylinder)])))"

text \<open>A propagator that returns in every case, seen as one that can throw.\<close>

definition returning :: "'b Propagator \<Rightarrow> ('b, 'e) ThrowingPropagator" where
  "returning p f s = Inr (p f s)"

section \<open>The per-event driver\<close>

subsection \<open>Division of doubles\<close>

text \<open>
  \<open>xx/rr\<close> is a division of doubles with no guard in front of it. Where the divisor is
  zero it raises nothing: it yields NaN for \<open>0/0\<close> and an infinity otherwise.
\<close>

datatype Quotient = Finite real | Infinity | NaN

definition double_div :: "real \<Rightarrow> real \<Rightarrow> Quotient" where
  "double_div a b = (if b \<noteq> 0 then Finite (a / b) else if a = 0 then NaN else Infinity)"

subsection \<open>The three blocks of the loop body\<close>

text \<open>
  \<open>produce\<close> returns nothing and puts nothing into the event: every \<open>push_back\<close> of the
  original is commented out. What a block computes lives in its local variables only. To state what
  the driver computes, the model returns these locals: \<open>Some\<close> of them when the \<open>if\<close>
  branch ran, \<open>None\<close> when the (empty) \<open>else\<close> branch ran.
\<close>

record Locals =
  xx :: real
  yy :: real
  rr :: real
  cosphi :: Quotient

record CylLocals = Locals +
  zz :: real

text \<open>The block after each of the two calls of \<open>surfExtrapTrkSam\<close> (the two blocks are the same text).\<close>

definition me2_block :: "TrajectoryStateOnSurface \<Rightarrow> Locals option \<times> 'b Call list" where
  "me2_block t =
     (if isValid t
      then (let xx = coord_x (globalPosition t);
                yy = coord_y (globalPosition t);
                rr = sqrt (xx * xx + yy * yy);
                cosphi = double_div xx rr
            in (Some \<lparr>xx = xx, yy = yy, rr = rr, cosphi = cosphi\<rparr>,
                [Read_globalPosition t, Read_globalPosition t]))
      else (None, []))"

text \<open>The block after the call of \<open>cylExtrapTrkSam\<close>.\<close>

definition mb2_block :: "TrajectoryStateOnSurface \<Rightarrow> CylLocals option \<times> 'b Call list" where
  "mb2_block t =
     (if isValid t
      then (let xx = coord_x (globalPosition t);
                yy = coord_y (globalPosition t);
                zz = coord_z (globalPosition t);
                rr = sqrt (xx * xx + yy * yy);
                cosphi = double_div xx rr
            in (Some \<lparr>xx = xx, yy = yy, rr = rr, cosphi = cosphi, zz = zz\<rparr>,
                [Read_globalPosition t, Read_globalPosition t, Read_globalPosition t]))
      else (None, []))"

subsection \<open>One iteration and the loop\<close>

text \<open>
  What one iteration computes for its muon: the trajectory state each of the three
  extrapolations returned (each is assigned to the member \<open>tsos\<close> in turn) and the locals
  of the block that follows it. The names follow the commented-out output branches
  (\<open>tr_r_me2_p\<close>, \<open>tr_r_me2_n\<close>, \<open>tr_z_mb2\<close>).
\<close>

record MuonResult =
  tsos_me2_p :: TrajectoryStateOnSurface
  me2_p :: "Locals option"
  tsos_me2_n :: TrajectoryStateOnSurface
  me2_n :: "Locals option"
  tsos_mb2 :: TrajectoryStateOnSurface
  mb2 :: "CylLocals option"

definition loop_body ::
  "'b L1MuonRecoPropagator \<Rightarrow> Muon \<Rightarrow> 'b L1MuonRecoPropagator \<times> MuonResult \<times> 'b Call list" where
  "loop_body self imu =
     (let tr_mu = innerTrack imu;
          (t1, c1) = surfExtrapTrkSam self tr_mu 790;
          self1 = self\<lparr>tsos := t1\<rparr>;
          (l1, r1) = me2_block (tsos self1);
          (t2, c2) = surfExtrapTrkSam self1 tr_mu (- 790);
          self2 = self1\<lparr>tsos := t2\<rparr>;
          (l2, r2) = me2_block (tsos self2);
          (t3, c3) = cylExtrapTrkSam self2 tr_mu 500;
          self3 = self2\<lparr>tsos := t3\<rparr>;
          (l3, r3) = mb2_block (tsos self3)
      in (self3,
          \<lparr>tsos_me2_p = t1, me2_p = l1, tsos_me2_n = t2, me2_n = l2, tsos_mb2 = t3, mb2 = l3\<rparr>,
          c1 @ r1 @ c2 @ r2 @ c3 @ r3))"

text \<open>The \<open>for\<close> loop over the collection, from \<open>begin()\<close> to \<open>end()\<close>.\<close>

fun muon_loop ::
  "'b L1MuonRecoPropagator \<Rightarrow> Muon list \<Rightarrow>
     'b L1MuonRecoPropagator \<times> MuonResult list \<times> 'b Call list" where
  "muon_loop self [] = (self, [], [])"
| "muon_loop self (imu # rest) =
     (let (self1, r, c) = loop_body self imu;
          (self2, rs, cs) = muon_loop self1 rest
      in (self2, r # rs, c @ cs))"

text \<open>
  The first four statements of \<open>produce\<close> fetch the muons, the field and the two
  propagators into the members. The fetches are taken to succeed (a missing product is
  the host framework's error, raised before the loop starts).
\<close>

definition fetch ::
  "'b L1MuonRecoPropagator \<Rightarrow> Event \<Rightarrow> 'b EventSetup \<Rightarrow> 'b L1MuonRecoPropagator" where
  "fetch self iEvent iSetup =
     self\<lparr>mucand := slimmedMuons iEvent,
          theBField := IdealMagneticFieldRecord iSetup,
          propagatorAlong := SmartPropagatorAny iSetup,
          propagatorOpposite := SmartPropagatorAnyOpposite iSetup\<rparr>"

definition produce ::
  "'b L1MuonRecoPropagator \<Rightarrow> Event \<Rightarrow> 'b EventSetup \<Rightarrow>
     'b L1MuonRecoPropagator \<times> MuonResult list \<times> 'b Call list" where
  "produce self iEvent iSetup =
     (let self1 = fetch self iEvent iSetup
      in muon_loop self1 (mucand self1))"

text \<open>Projections of what \<open>produce\<close> returns in the model.\<close>

definition results_of :: "'s \<times> MuonResult list \<times> 'c list \<Rightarrow> MuonResult list" where
  "results_of p = fst (snd p)"

definition calls_of :: "'s \<times> 'r \<times> 'c list \<Rightarrow> 'c list" where
  "calls_of p = snd (snd p)"

text \<open>The entries into the two extrapolation methods in a log, in order.\<close>

fun extrapolations :: "'b Call list \<Rightarrow> 'b Call list" where
  "extrapolations [] = []"
| "extrapolations (Enter_surfExtrapTrkSam t z # cs) = Enter_surfExtrapTrkSam t z # extrapolations cs"
| "extrapolations (Enter_cylExtrapTrkSam t rho # cs) = Enter_cylExtrapTrkSam t rho # extrapolations cs"
| "extrapolations (c # cs) = extrapolations cs"

text \<open>The states that \<open>globalPosition()\<close> was called on, in order.\<close>

fun position_reads :: "'b Call list \<Rightarrow> TrajectoryStateOnSurface list" where
  "position_reads [] = []"
| "position_reads (Read_globalPosition t # cs) = t # position_reads cs"
| "position_reads (c # cs) = position_reads cs"

section \<open>Example collaborators\<close>

text \<open>
  Two small propagators for concrete runs. They follow the straight line through the
  start point: \<open>lineAlong\<close> in the sense of the momentum, \<open>lineOpposite\<close> against it. For a
  plane they look at the longitudinal coordinate only; for a cylinder they know only tracks
  whose momentum has no \<open>y\<close> component, and report every other one as invalid. The field is
  a uniform field vector, which they ignore.
\<close>

definition line_to_plane ::
  "GlobalVector FreeTrajectoryState \<Rightarrow> real \<Rightarrow> TrajectoryStateOnSurface" where
  "line_to_plane f zt =
     (let s = (zt - coord_z (position f)) / coord_z (momentum f)
      in \<lparr>isValid = True,
          globalPosition = Vec3 (coord_x (position f) + s * coord_x (momentum f))
                                (coord_y (position f) + s * coord_y (momentum f)) zt\<rparr>)"

definition line_to_cylinder ::
  "GlobalVector FreeTrajectoryState \<Rightarrow> real \<Rightarrow> TrajectoryStateOnSurface" where
  "line_to_cylinder f rho =
     (let s = rho / coord_x (momentum f)
      in \<lparr>isValid = True,
          globalPosition = Vec3 rho 0 (coord_z (position f) + s * coord_z (momentum f))\<rparr>)"

fun lineAlong :: "GlobalVector Propagator" where
  "lineAlong f (Plane pos rot) =
     (if 0 < (coord_z pos - coord_z (position f)) * coord_z (momentum f)
      then line_to_plane f (coord_z pos) else TrajectoryStateOnSurface_default)"
| "lineAlong f (Cylinder pos rot rho) =
     (if 0 < coord_x (momentum f) \<and> coord_y (momentum f) = 0
      then line_to_cylinder f rho else TrajectoryStateOnSurface_default)"

fun lineOpposite :: "GlobalVector Propagator" where
  "lineOpposite f (Plane pos rot) =
     (if (coord_z pos - coord_z (position f)) * coord_z (momentum f) < 0
      then line_to_plane f (coord_z pos) else TrajectoryStateOnSurface_default)"
| "lineOpposite f (Cylinder pos rot rho) =
     (if coord_x (momentum f) < 0 \<and> coord_y (momentum f) = 0
      then line_to_cylinder f rho else TrajectoryStateOnSurface_default)"

definition uniformField :: GlobalVector where
  "uniformField = Vec3 0 0 (38 / 10)"

definition exampleSetup :: "GlobalVector EventSetup" where
  "exampleSetup = \<lparr>IdealMagneticFieldRecord = uniformField,
                    SmartPropagatorAny = lineAlong,
                    SmartPropagatorAnyOpposite = lineOpposite\<rparr>"

text \<open>A freshly constructed module before its first event: nothing fetched yet.\<close>

definition exampleModule :: "GlobalVector L1MuonRecoPropagator" where
  "exampleModule = \<lparr>theBField = Vec3 0 0 0, mucand = [],
                     propagatorAlong = (\<lambda>f s. TrajectoryStateOnSurface_default),
                     propagatorOpposite = (\<lambda>f s. TrajectoryStateOnSurface_default),
                     tsos = TrajectoryStateOnSurface_default\<rparr>"

text \<open>The module with the example field and propagators fetched.\<close>

definition exampleEngine :: "GlobalVector L1MuonRecoPropagator" where
  "exampleEngine = fetch exampleModule \<lparr>slimmedMuons = []\<rparr> exampleSetup"

text \<open>
  Tracks: along the beam axis; parallel to it, off the axis; pointing backward and
  inward; along \<open>x\<close>; along \<open>y\<close>.
\<close>

definition axisTrack :: Track where
  "axisTrack = \<lparr>innerPosition = Vec3 0 0 0, innerMomentum = Vec3 0 0 50, charge = 1\<rparr>"

definition forwardTrack :: Track where
  "forwardTrack = \<lparr>innerPosition = Vec3 3 4 0, innerMomentum = Vec3 0 0 10, charge = - 1\<rparr>"

definition backwardTrack :: Track where
  "backwardTrack = \<lparr>innerPosition = Vec3 0 0 0, innerMomentum = Vec3 (- 5) 0 (- 20), charge = 1\<rparr>"

definition barrelTrack :: Track where
  "barrelTrack = \<lparr>innerPosition = Vec3 0 0 10, innerMomentum = Vec3 5 0 0, charge = 1\<rparr>"

definition transverseTrack :: Track where
  "transverseTrack = \<lparr>innerPosition = Vec3 0 0 0, innerMomentum = Vec3 0 7 0, charge = - 1\<rparr>"


section \<open>Frame lemmas and the shape of the loop\<close>

text \<open>
  The two extrapolation methods read the field and the two propagators; the members
  \<open>tsos\<close> and \<open>mucand\<close> play no part in them.
\<close>

lemma surfExtrapTrkSam_tsos_frame:
  "surfExtrapTrkSam (self\<lparr>tsos := t\<rparr>) track z = surfExtrapTrkSam self track z"
  by (simp add: surfExtrapTrkSam_def freeTrajStateMuon_def Let_def)

lemma cylExtrapTrkSam_tsos_frame:
  "cylExtrapTrkSam (self\<lparr>tsos := t\<rparr>) track rho = cylExtrapTrkSam self track rho"
  by (simp add: cylExtrapTrkSam_def freeTrajStateMuon_def Let_def)

text \<open>One iteration, with the member \<open>tsos\<close> threaded out.\<close>

lemma loop_body_unfold:
  "loop_body self imu =
     (self\<lparr>tsos := fst (cylExtrapTrkSam self (innerTrack imu) 500)\<rparr>,
      \<lparr>tsos_me2_p = fst (surfExtrapTrkSam self (innerTrack imu) 790),
       me2_p = fst (me2_block (fst (surfExtrapTrkSam self (innerTrack imu) 790)) :: Locals option \<times> 'b Call list),
       tsos_me2_n = fst (surfExtrapTrkSam self (innerTrack imu) (- 790)),
       me2_n = fst (me2_block (fst (surfExtrapTrkSam self (innerTrack imu) (- 790))) :: Locals option \<times> 'b Call list),
       tsos_mb2 = fst (cylExtrapTrkSam self (innerTrack imu) 500),
       mb2 = fst (mb2_block (fst (cylExtrapTrkSam self (innerTrack imu) 500)) :: CylLocals option \<times> 'b Call list)\<rparr>,
      snd (surfExtrapTrkSam self (innerTrack imu) 790)
        @ snd (me2_block (fst (surfExtrapTrkSam self (innerTrack imu) 790)))
        @ snd (surfExtrapTrkSam self (innerTrack imu) (- 790))
        @ snd (me2_block (fst (surfExtrapTrkSam self (innerTrack imu) (- 790))))
        @ snd (cylExtrapTrkSam self (innerTrack imu) 500)
        @ snd (mb2_block (fst (cylExtrapTrkSam self (innerTrack imu) 500))))"
  for self :: "'b L1MuonRecoPropagator"
  by (simp add: loop_body_def Let_def split_beta surfExtrapTrkSam_tsos_frame
      cylExtrapTrkSam_tsos_frame)

lemma loop_body_tsos_frame:
  "snd (loop_body (self\<lparr>tsos := t\<rparr>) imu) = snd (loop_body self imu)"
  by (simp add: loop_body_unfold surfExtrapTrkSam_tsos_frame cylExtrapTrkSam_tsos_frame)

text \<open>
  The loop is a map of its body over the collection: an iteration changes only the
  member \<open>tsos\<close>, which the next iteration overwrites before it reads it.
\<close>

lemma muon_loop_results:
  "results_of (muon_loop self mus) = map (\<lambda>imu. fst (snd (loop_body self imu))) mus"
proof (induction mus arbitrary: self)
  case Nil
  show ?case by (simp add: results_of_def)
next
  case (Cons imu rest)
  have step: "fst (loop_body self imu) = self\<lparr>tsos := fst (cylExtrapTrkSam self (innerTrack imu) 500)\<rparr>"
    by (simp add: loop_body_unfold)
  have "results_of (muon_loop self (imu # rest)) =
          fst (snd (loop_body self imu)) # results_of (muon_loop (fst (loop_body self imu)) rest)"
    by (simp add: results_of_def split_beta Let_def)
  also have "results_of (muon_loop (fst (loop_body self imu)) rest) =
          map (\<lambda>m. fst (snd (loop_body (fst (loop_body self imu)) m))) rest"
    by (rule Cons.IH)
  also have "\<dots> = map (\<lambda>m. fst (snd (loop_body self m))) rest"
    unfolding step by (simp only: loop_body_tsos_frame)
  finally show ?case by simp
qed

lemma muon_loop_calls:
  "calls_of (muon_loop self mus) = concat (map (\<lambda>imu. snd (snd (loop_body self imu))) mus)"
proof (induction mus arbitrary: self)
  case Nil
  show ?case by (simp add: calls_of_def)
next
  case (Cons imu rest)
  have step: "fst (loop_body self imu) = self\<lparr>tsos := fst (cylExtrapTrkSam self (innerTrack imu) 500)\<rparr>"
    by (simp add: loop_body_unfold)
  have "calls_of (muon_loop self (imu # rest)) =
          snd (snd (loop_body self imu)) @ calls_of (muon_loop (fst (loop_body self imu)) rest)"
    by (simp add: calls_of_def split_beta Let_def)
  also have "calls_of (muon_loop (fst (loop_body self imu)) rest) =
          concat (map (\<lambda>m. snd (snd (loop_body (fst (loop_body self imu)) m))) rest)"
    by (rule Cons.IH)
  also have "\<dots> = concat (map (\<lambda>m. snd (snd (loop_body self m))) rest)"
    unfolding step by (simp only: loop_body_tsos_frame)
  finally show ?case by simp
qed


lemma fetch_tsos_frame:
  "fetch (self\<lparr>tsos := t\<rparr>) iEvent iSetup = (fetch self iEvent iSetup)\<lparr>tsos := t\<rparr>"
  by (simp add: fetch_def)

lemma engine_handles_only:
  assumes "theBField self = theBField self'"
    and "propagatorAlong self = propagatorAlong self'"
    and "propagatorOpposite self = propagatorOpposite self'"
  shows "surfExtrapTrkSam self track z = surfExtrapTrkSam self' track z"
    and "cylExtrapTrkSam self track rho = cylExtrapTrkSam self' track rho"
  using assms
  by (simp_all add: surfExtrapTrkSam_def cylExtrapTrkSam_def freeTrajStateMuon_def Let_def)

section \<open>The extrapolation engine: order of the attempts\<close>

text \<open>
  Claim C1. For every track and for both kinds of target, the plane at \<open>z\<close> and the
  cylinder of radius \<open>rho\<close>, the calls of \<open>propagate\<close> an extrapolation makes are the
  ``along'' propagation first, followed by the ``opposite'' propagation exactly when the
  ``along'' answer is invalid. The state returned is the ``along'' answer when that is
  valid and the ``opposite'' answer otherwise. In particular, when ``along'' fails and
  ``opposite'' succeeds, the state returned is valid and equal to the direct ``opposite''
  propagation of the same free state to the same surface.
\<close>

theorem along_first_opposite_fallback:
  assumes "f = freeTrajStateMuon self track"
    and "P = Plane (Vec3 0 0 z) RotationType_default"
    and "C = Cylinder (Vec3 0 0 0) RotationType_default rho"
  shows "propagations (snd (surfExtrapTrkSam self track z)) =
           (Along, f, P) # (if isValid (propagatorAlong self f P) then [] else [(Opposite, f, P)])
         \<and> fst (surfExtrapTrkSam self track z) =
           (if isValid (propagatorAlong self f P) then propagatorAlong self f P
            else propagatorOpposite self f P)
         \<and> propagations (snd (cylExtrapTrkSam self track rho)) =
           (Along, f, C) # (if isValid (propagatorAlong self f C) then [] else [(Opposite, f, C)])
         \<and> fst (cylExtrapTrkSam self track rho) =
           (if isValid (propagatorAlong self f C) then propagatorAlong self f C
            else propagatorOpposite self f C)
         \<and> (\<not> isValid (propagatorAlong self f P) \<and> isValid (propagatorOpposite self f P) \<longrightarrow>
              isValid (fst (surfExtrapTrkSam self track z)) \<and>
              fst (surfExtrapTrkSam self track z) = propagatorOpposite self f P)
         \<and> (\<not> isValid (propagatorAlong self f C) \<and> isValid (propagatorOpposite self f C) \<longrightarrow>
              isValid (fst (cylExtrapTrkSam self track rho)) \<and>
              fst (cylExtrapTrkSam self track rho) = propagatorOpposite self f C)"
  unfolding assms
  by (simp add: surfExtrapTrkSam_def cylExtrapTrkSam_def Plane_build_def Cylinder_build_def Let_def)

text \<open>The example engine on the backward track: both targets are reached by the fallback.\<close>

lemma ex_fts_backward:
  "freeTrajStateMuon exampleEngine backwardTrack =
     \<lparr>position = Vec3 0 0 0, momentum = Vec3 (- 5) 0 (- 20), fts_charge = 1, field = uniformField\<rparr>"
  by (simp add: freeTrajStateMuon_def exampleEngine_def fetch_def exampleSetup_def backwardTrack_def)

lemma ex_engine_handles:
  "propagatorAlong exampleEngine = lineAlong" "propagatorOpposite exampleEngine = lineOpposite"
  "theBField exampleEngine = uniformField"
  by (simp_all add: exampleEngine_def fetch_def exampleSetup_def)

theorem along_first_opposite_fallback_witness:
  "propagations (snd (surfExtrapTrkSam exampleEngine backwardTrack 790)) =
     [(Along, freeTrajStateMuon exampleEngine backwardTrack, Plane (Vec3 0 0 790) RotationType_default),
      (Opposite, freeTrajStateMuon exampleEngine backwardTrack, Plane (Vec3 0 0 790) RotationType_default)]
   \<and> fst (surfExtrapTrkSam exampleEngine backwardTrack 790) =
       \<lparr>isValid = True, globalPosition = Vec3 (395 / 2) 0 790\<rparr>
   \<and> fst (surfExtrapTrkSam exampleEngine backwardTrack 790) =
       lineOpposite (freeTrajStateMuon exampleEngine backwardTrack) (Plane (Vec3 0 0 790) RotationType_default)
   \<and> propagations (snd (cylExtrapTrkSam exampleEngine backwardTrack 500)) =
     [(Along, freeTrajStateMuon exampleEngine backwardTrack, Cylinder (Vec3 0 0 0) RotationType_default 500),
      (Opposite, freeTrajStateMuon exampleEngine backwardTrack, Cylinder (Vec3 0 0 0) RotationType_default 500)]
   \<and> fst (cylExtrapTrkSam exampleEngine backwardTrack 500) =
       \<lparr>isValid = True, globalPosition = Vec3 500 0 2000\<rparr>"
  using along_first_opposite_fallback [of "freeTrajStateMuon exampleEngine backwardTrack"
      exampleEngine backwardTrack "Plane (Vec3 0 0 790) RotationType_default" 790
      "Cylinder (Vec3 0 0 0) RotationType_default 500" 500, OF refl refl refl]
  by (simp add: ex_fts_backward ex_engine_handles line_to_plane_def line_to_cylinder_def
      TrajectoryStateOnSurface_default_def)

text \<open>
  With propagators that return, the engine with exceptions is the engine of the first
  section: same state, same calls of \<open>propagate\<close>.
\<close>

lemma engine_exn_returning:
  "surfExtrapTrkSam_exn (theBField self) (returning (propagatorAlong self))
      (returning (propagatorOpposite self)) (Some track) z =
     (Inr (fst (surfExtrapTrkSam self track z)), propagations (snd (surfExtrapTrkSam self track z)))"
  "cylExtrapTrkSam_exn (theBField self) (returning (propagatorAlong self))
      (returning (propagatorOpposite self)) (Some track) rho =
     (Inr (fst (cylExtrapTrkSam self track rho)), propagations (snd (cylExtrapTrkSam self track rho)))"
  by (simp_all add: surfExtrapTrkSam_exn_def cylExtrapTrkSam_exn_def freeTrajStateMuon_exn_def
      returning_def surfExtrapTrkSam_def cylExtrapTrkSam_def freeTrajStateMuon_def Let_def)




section \<open>The plane extrapolation is a function of its inputs\<close>

text \<open>
  Claim C6. The plane extrapolation of a track to the offset \<open>z\<close> is determined by the
  track, by \<open>z\<close>, and by the field and the two propagators. Two calls with the same track
  and the same \<open>z\<close>, made in two states of the module that hold the same field and
  propagators, give the same state and make the same calls, whatever the other members
  (\<open>tsos\<close>, \<open>mucand\<close>) hold at the time of each call. The propagators are functions in the
  model: that the framework's propagators compute the same answer for the same arguments
  is taken from their interface.
\<close>

theorem surfExtrapTrkSam_deterministic:
  assumes "theBField self = theBField self'"
    and "propagatorAlong self = propagatorAlong self'"
    and "propagatorOpposite self = propagatorOpposite self'"
  shows "surfExtrapTrkSam self track z = surfExtrapTrkSam self' track z"
  using assms by (rule engine_handles_only)

text \<open>A second call, after the first one's answer was stored in \<open>tsos\<close>.\<close>

lemma ex_engine_after_call:
  "theBField (exampleEngine\<lparr>tsos := t, mucand := ms\<rparr>) = theBField exampleEngine"
  "propagatorAlong (exampleEngine\<lparr>tsos := t, mucand := ms\<rparr>) = propagatorAlong exampleEngine"
  "propagatorOpposite (exampleEngine\<lparr>tsos := t, mucand := ms\<rparr>) = propagatorOpposite exampleEngine"
  by simp_all

theorem surfExtrapTrkSam_deterministic_witness:
  "surfExtrapTrkSam
     (exampleEngine\<lparr>tsos := fst (surfExtrapTrkSam exampleEngine forwardTrack 790),
                    mucand := [\<lparr>innerTrack = forwardTrack\<rparr>]\<rparr>) forwardTrack 790
   = surfExtrapTrkSam exampleEngine forwardTrack 790
   \<and> fst (surfExtrapTrkSam exampleEngine forwardTrack 790) =
       \<lparr>isValid = True, globalPosition = Vec3 3 4 790\<rparr>"
proof -
  have "surfExtrapTrkSam
     (exampleEngine\<lparr>tsos := fst (surfExtrapTrkSam exampleEngine forwardTrack 790),
                    mucand := [\<lparr>innerTrack = forwardTrack\<rparr>]\<rparr>) forwardTrack 790
   = surfExtrapTrkSam exampleEngine forwardTrack 790"
    by (rule surfExtrapTrkSam_deterministic [OF ex_engine_after_call])
  moreover have "fst (surfExtrapTrkSam exampleEngine forwardTrack 790) =
       \<lparr>isValid = True, globalPosition = Vec3 3 4 790\<rparr>"
    by (simp add: surfExtrapTrkSam_def freeTrajStateMuon_def ex_engine_handles forwardTrack_def
        Plane_build_def Let_def line_to_plane_def)
  ultimately show ?thesis by simp
qed

section \<open>The driver as a map over the collection\<close>

lemma fetch_handles:
  "theBField (fetch self iEvent iSetup) = IdealMagneticFieldRecord iSetup"
  "propagatorAlong (fetch self iEvent iSetup) = SmartPropagatorAny iSetup"
  "propagatorOpposite (fetch self iEvent iSetup) = SmartPropagatorAnyOpposite iSetup"
  "mucand (fetch self iEvent iSetup) = slimmedMuons iEvent"
  "tsos (fetch self iEvent iSetup) = tsos self"
  by (simp_all add: fetch_def)

lemma produce_results:
  "results_of (produce self iEvent iSetup) =
     map (\<lambda>imu. fst (snd (loop_body (fetch self iEvent iSetup) imu))) (slimmedMuons iEvent)"
  by (simp add: produce_def Let_def muon_loop_results fetch_handles)

lemma produce_calls:
  "calls_of (produce self iEvent iSetup) =
     concat (map (\<lambda>imu. snd (snd (loop_body (fetch self iEvent iSetup) imu))) (slimmedMuons iEvent))"
  by (simp add: produce_def Let_def muon_loop_calls fetch_handles)

lemma produce_result_nth:
  assumes "i < length (slimmedMuons iEvent)"
  shows "results_of (produce self iEvent iSetup) ! i =
           fst (snd (loop_body (fetch self iEvent iSetup) (slimmedMuons iEvent ! i)))"
  using assms by (simp add: produce_results)

text \<open>What the two kinds of block leave in their locals.\<close>

lemma me2_block_locals:
  "fst (me2_block t :: Locals option \<times> 'c Call list) =
     (if isValid t
      then Some \<lparr>xx = coord_x (globalPosition t), yy = coord_y (globalPosition t),
                 rr = sqrt (coord_x (globalPosition t) * coord_x (globalPosition t)
                            + coord_y (globalPosition t) * coord_y (globalPosition t)),
                 cosphi = double_div (coord_x (globalPosition t))
                            (sqrt (coord_x (globalPosition t) * coord_x (globalPosition t)
                                   + coord_y (globalPosition t) * coord_y (globalPosition t)))\<rparr>
      else None)"
  by (simp add: me2_block_def Let_def)

lemma mb2_block_locals:
  "fst (mb2_block t :: CylLocals option \<times> 'c Call list) =
     (if isValid t
      then Some \<lparr>xx = coord_x (globalPosition t), yy = coord_y (globalPosition t),
                 rr = sqrt (coord_x (globalPosition t) * coord_x (globalPosition t)
                            + coord_y (globalPosition t) * coord_y (globalPosition t)),
                 cosphi = double_div (coord_x (globalPosition t))
                            (sqrt (coord_x (globalPosition t) * coord_x (globalPosition t)
                                   + coord_y (globalPosition t) * coord_y (globalPosition t))),
                 zz = coord_z (globalPosition t)\<rparr>
      else None)"
  by (simp add: mb2_block_def Let_def)

text \<open>
  The result of the iteration for the \<open>i\<close>-th muon: the three states are the engine's
  answers for the three targets, and each block's locals are a function of its state.
\<close>

lemma produce_result_states:
  assumes "i < length (slimmedMuons iEvent)"
    and "r = results_of (produce self iEvent iSetup) ! i"
    and "eng = fetch self iEvent iSetup"
    and "tr = innerTrack (slimmedMuons iEvent ! i)"
  shows "tsos_me2_p r = fst (surfExtrapTrkSam eng tr 790)"
    and "tsos_me2_n r = fst (surfExtrapTrkSam eng tr (- 790))"
    and "tsos_mb2 r = fst (cylExtrapTrkSam eng tr 500)"
  using assms by (simp_all add: produce_result_nth loop_body_unfold)

lemma produce_result_locals:
  assumes "i < length (slimmedMuons iEvent)"
    and "r = results_of (produce self iEvent iSetup) ! i"
  shows "me2_p r =
     (if isValid (tsos_me2_p r)
      then Some \<lparr>xx = coord_x (globalPosition (tsos_me2_p r)),
                 yy = coord_y (globalPosition (tsos_me2_p r)),
                 rr = sqrt (coord_x (globalPosition (tsos_me2_p r)) * coord_x (globalPosition (tsos_me2_p r))
                            + coord_y (globalPosition (tsos_me2_p r)) * coord_y (globalPosition (tsos_me2_p r))),
                 cosphi = double_div (coord_x (globalPosition (tsos_me2_p r)))
                            (sqrt (coord_x (globalPosition (tsos_me2_p r)) * coord_x (globalPosition (tsos_me2_p r))
                                   + coord_y (globalPosition (tsos_me2_p r)) * coord_y (globalPosition (tsos_me2_p r))))\<rparr>
      else None)"
    and "me2_n r =
     (if isValid (tsos_me2_n r)
      then Some \<lparr>xx = coord_x (globalPosition (tsos_me2_n r)),
                 yy = coord_y (globalPosition (tsos_me2_n r)),
                 rr = sqrt (coord_x (globalPosition (tsos_me2_n r)) * coord_x (globalPosition (tsos_me2_n r))
                            + coord_y (globalPosition (tsos_me2_n r)) * coord_y (globalPosition (tsos_me2_n r))),
                 cosphi = double_div (coord_x (globalPosition (tsos_me2_n r)))
                            (sqrt (coord_x (globalPosition (tsos_me2_n r)) * coord_x (globalPosition (tsos_me2_n r))
                                   + coord_y (globalPosition (tsos_me2_n r)) * coord_y (globalPosition (tsos_me2_n r))))\<rparr>
      else None)"
    and "mb2 r =
     (if isValid (tsos_mb2 r)
      then Some \<lparr>xx = coord_x (globalPosition (tsos_mb2 r)),
                 yy = coord_y (globalPosition (tsos_mb2 r)),
                 rr = sqrt (coord_x (globalPosition (tsos_mb2 r)) * coord_x (globalPosition (tsos_mb2 r))
                            + coord_y (globalPosition (tsos_mb2 r)) * coord_y (globalPosition (tsos_mb2 r))),
                 cosphi = double_div (coord_x (globalPosition (tsos_mb2 r)))
                            (sqrt (coord_x (globalPosition (tsos_mb2 r)) * coord_x (globalPosition (tsos_mb2 r))
                                   + coord_y (globalPosition (tsos_mb2 r)) * coord_y (globalPosition (tsos_mb2 r)))),
                 zz = coord_z (globalPosition (tsos_mb2 r))\<rparr>
      else None)"
  using assms by (simp_all add: produce_result_nth loop_body_unfold me2_block_locals mb2_block_locals)

lemma loop_body_handles_only:
  assumes "theBField self = theBField self'"
    and "propagatorAlong self = propagatorAlong self'"
    and "propagatorOpposite self = propagatorOpposite self'"
  shows "snd (loop_body self imu) = snd (loop_body self' imu)"
  by (simp add: loop_body_unfold engine_handles_only [OF assms])

text \<open>The three projections of the log distribute over concatenation.\<close>

lemma extrapolations_append:
  "extrapolations (cs @ ds) = extrapolations cs @ extrapolations ds"
  by (induction cs rule: extrapolations.induct) simp_all

lemma extrapolations_concat:
  "extrapolations (concat css) = concat (map extrapolations css)"
  by (induction css) (simp_all add: extrapolations_append)

lemma propagations_append:
  "propagations (cs @ ds) = propagations cs @ propagations ds"
  by (induction cs rule: propagations.induct) simp_all

lemma propagations_concat:
  "propagations (concat css) = concat (map propagations css)"
  by (induction css) (simp_all add: propagations_append)

lemma position_reads_append:
  "position_reads (cs @ ds) = position_reads cs @ position_reads ds"
  by (induction cs rule: position_reads.induct) simp_all

lemma position_reads_concat:
  "position_reads (concat css) = concat (map position_reads css)"
  by (induction css) (simp_all add: position_reads_append)

text \<open>The log of one iteration, seen through each projection.\<close>

lemma extrapolations_loop_body:
  "extrapolations (snd (snd (loop_body self imu))) =
     [Enter_surfExtrapTrkSam (innerTrack imu) 790, Enter_surfExtrapTrkSam (innerTrack imu) (- 790),
      Enter_cylExtrapTrkSam (innerTrack imu) 500]"
  by (simp add: loop_body_unfold extrapolations_append surfExtrapTrkSam_def cylExtrapTrkSam_def
      me2_block_def mb2_block_def Let_def)

lemma along_targets_loop_body:
  "map (\<lambda>p. snd (snd p)) (filter (\<lambda>p. fst p = Along) (propagations (snd (snd (loop_body self imu))))) =
     [Plane (Vec3 0 0 790) RotationType_default, Plane (Vec3 0 0 (- 790)) RotationType_default,
      Cylinder (Vec3 0 0 0) RotationType_default 500]"
  by (simp add: loop_body_unfold propagations_append surfExtrapTrkSam_def cylExtrapTrkSam_def
      me2_block_def mb2_block_def Plane_build_def Cylinder_build_def Let_def)

lemma position_reads_loop_body:
  "position_reads (snd (snd (loop_body self imu))) =
     (if isValid (fst (surfExtrapTrkSam self (innerTrack imu) 790))
      then [fst (surfExtrapTrkSam self (innerTrack imu) 790),
            fst (surfExtrapTrkSam self (innerTrack imu) 790)] else [])
     @ (if isValid (fst (surfExtrapTrkSam self (innerTrack imu) (- 790)))
        then [fst (surfExtrapTrkSam self (innerTrack imu) (- 790)),
              fst (surfExtrapTrkSam self (innerTrack imu) (- 790))] else [])
     @ (if isValid (fst (cylExtrapTrkSam self (innerTrack imu) 500))
        then [fst (cylExtrapTrkSam self (innerTrack imu) 500),
              fst (cylExtrapTrkSam self (innerTrack imu) 500),
              fst (cylExtrapTrkSam self (innerTrack imu) 500)] else [])"
  by (simp add: loop_body_unfold position_reads_append surfExtrapTrkSam_def cylExtrapTrkSam_def
      me2_block_def mb2_block_def Let_def)

lemma position_reads_loop_body_valid:
  "list_all isValid (position_reads (snd (snd (loop_body self imu))))"
  by (simp add: position_reads_loop_body)



section \<open>Concrete runs of the example collaborators\<close>

lemma ex_fetched_handles:
  "theBField (fetch exampleModule iEvent exampleSetup) = uniformField"
  "propagatorAlong (fetch exampleModule iEvent exampleSetup) = lineAlong"
  "propagatorOpposite (fetch exampleModule iEvent exampleSetup) = lineOpposite"
  by (simp_all add: fetch_def exampleSetup_def)

lemma ex_engine_fetched:
  "surfExtrapTrkSam (fetch exampleModule iEvent exampleSetup) track z = surfExtrapTrkSam exampleEngine track z"
  "cylExtrapTrkSam (fetch exampleModule iEvent exampleSetup) track rho = cylExtrapTrkSam exampleEngine track rho"
  by (rule engine_handles_only; simp add: ex_fetched_handles ex_engine_handles)+


lemma ex_forward:
  "fst (surfExtrapTrkSam exampleEngine forwardTrack 790) = \<lparr>isValid = True, globalPosition = Vec3 3 4 790\<rparr>"
  "fst (surfExtrapTrkSam exampleEngine forwardTrack (- 790)) = \<lparr>isValid = True, globalPosition = Vec3 3 4 (- 790)\<rparr>"
  "fst (cylExtrapTrkSam exampleEngine forwardTrack 500) = TrajectoryStateOnSurface_default"
  by (simp_all add: surfExtrapTrkSam_def cylExtrapTrkSam_def freeTrajStateMuon_def ex_engine_handles
      forwardTrack_def Plane_build_def Cylinder_build_def Let_def line_to_plane_def
      TrajectoryStateOnSurface_default_def)

lemma ex_transverse:
  "fst (surfExtrapTrkSam exampleEngine transverseTrack 790) = TrajectoryStateOnSurface_default"
  "fst (surfExtrapTrkSam exampleEngine transverseTrack (- 790)) = TrajectoryStateOnSurface_default"
  "fst (cylExtrapTrkSam exampleEngine transverseTrack 500) = TrajectoryStateOnSurface_default"
  by (simp_all add: surfExtrapTrkSam_def cylExtrapTrkSam_def freeTrajStateMuon_def ex_engine_handles
      transverseTrack_def Plane_build_def Cylinder_build_def Let_def line_to_plane_def
      TrajectoryStateOnSurface_default_def)

lemma ex_barrel:
  "fst (surfExtrapTrkSam exampleEngine barrelTrack 790) = TrajectoryStateOnSurface_default"
  "fst (surfExtrapTrkSam exampleEngine barrelTrack (- 790)) = TrajectoryStateOnSurface_default"
  "fst (cylExtrapTrkSam exampleEngine barrelTrack 500) = \<lparr>isValid = True, globalPosition = Vec3 500 0 10\<rparr>"
  by (simp_all add: surfExtrapTrkSam_def cylExtrapTrkSam_def freeTrajStateMuon_def ex_engine_handles
      barrelTrack_def Plane_build_def Cylinder_build_def Let_def line_to_cylinder_def
      TrajectoryStateOnSurface_default_def)

lemma sqrt_25: "sqrt 25 = 5"
  by (rule real_sqrt_unique) simp_all


lemma ex_result:
  "results_of (produce exampleModule \<lparr>slimmedMuons = [\<lparr>innerTrack = tr\<rparr>]\<rparr> exampleSetup) ! 0 =
     fst (snd (loop_body exampleEngine \<lparr>innerTrack = tr\<rparr>))"
  "results_of (produce exampleModule \<lparr>slimmedMuons = [\<lparr>innerTrack = tr\<rparr>, \<lparr>innerTrack = tr'\<rparr>]\<rparr> exampleSetup) ! 0 =
     fst (snd (loop_body exampleEngine \<lparr>innerTrack = tr\<rparr>))"
  "results_of (produce exampleModule \<lparr>slimmedMuons = [\<lparr>innerTrack = tr\<rparr>, \<lparr>innerTrack = tr'\<rparr>]\<rparr> exampleSetup) ! Suc 0 =
     fst (snd (loop_body exampleEngine \<lparr>innerTrack = tr'\<rparr>))"
  by (simp_all add: produce_results loop_body_unfold ex_engine_fetched)


lemma ex_result_forward:
  "fst (snd (loop_body exampleEngine \<lparr>innerTrack = forwardTrack\<rparr>)) =
     \<lparr>tsos_me2_p = \<lparr>isValid = True, globalPosition = Vec3 3 4 790\<rparr>,
      me2_p = Some \<lparr>xx = 3, yy = 4, rr = 5, cosphi = Finite (3 / 5)\<rparr>,
      tsos_me2_n = \<lparr>isValid = True, globalPosition = Vec3 3 4 (- 790)\<rparr>,
      me2_n = Some \<lparr>xx = 3, yy = 4, rr = 5, cosphi = Finite (3 / 5)\<rparr>,
      tsos_mb2 = TrajectoryStateOnSurface_default,
      mb2 = None\<rparr>"
  by (simp add: loop_body_unfold ex_forward me2_block_def mb2_block_def double_div_def
      TrajectoryStateOnSurface_default_def sqrt_25)

lemma ex_result_transverse:
  "fst (snd (loop_body exampleEngine \<lparr>innerTrack = transverseTrack\<rparr>)) =
     \<lparr>tsos_me2_p = TrajectoryStateOnSurface_default, me2_p = None,
      tsos_me2_n = TrajectoryStateOnSurface_default, me2_n = None,
      tsos_mb2 = TrajectoryStateOnSurface_default, mb2 = None\<rparr>"
  by (simp add: loop_body_unfold ex_transverse me2_block_def mb2_block_def
      TrajectoryStateOnSurface_default_def)


section \<open>The driver: three extrapolations for every track\<close>

text \<open>
  Claim C3. For every track of the input collection the driver computes exactly three
  extrapolations, in this order: to the plane at \<open>z = 790\<close>, to the plane at \<open>z = -790\<close> and
  to the cylinder of radius \<open>500\<close>. The three states recorded for a track are the engine's
  answers \<open>surfExtrapTrkSam 790\<close>, \<open>surfExtrapTrkSam (-790)\<close> and \<open>cylExtrapTrkSam 500\<close> for
  that track, track by track in the order of the collection. The log of the event is, for
  each track in turn, the calls of these three extrapolations, each followed by the reads
  of its block, and nothing else: its entries into the engine are the three methods in
  that order, and the targets handed to the ``along'' propagator are the plane through
  \<open>(0, 0, 790)\<close>, the plane through \<open>(0, 0, -790)\<close> and the cylinder of radius \<open>500\<close> around
  \<open>(0, 0, 0)\<close>, each with the identity rotation.
\<close>

theorem produce_three_extrapolations_per_track:
  assumes "eng = fetch self iEvent iSetup"
  shows "map tsos_me2_p (results_of (produce self iEvent iSetup)) =
           map (\<lambda>imu. fst (surfExtrapTrkSam eng (innerTrack imu) 790)) (slimmedMuons iEvent)
   \<and> map tsos_me2_n (results_of (produce self iEvent iSetup)) =
           map (\<lambda>imu. fst (surfExtrapTrkSam eng (innerTrack imu) (- 790))) (slimmedMuons iEvent)
   \<and> map tsos_mb2 (results_of (produce self iEvent iSetup)) =
           map (\<lambda>imu. fst (cylExtrapTrkSam eng (innerTrack imu) 500)) (slimmedMuons iEvent)
   \<and> calls_of (produce self iEvent iSetup) =
           concat (map (\<lambda>imu.
               snd (surfExtrapTrkSam eng (innerTrack imu) 790)
             @ snd (me2_block (fst (surfExtrapTrkSam eng (innerTrack imu) 790)))
             @ snd (surfExtrapTrkSam eng (innerTrack imu) (- 790))
             @ snd (me2_block (fst (surfExtrapTrkSam eng (innerTrack imu) (- 790))))
             @ snd (cylExtrapTrkSam eng (innerTrack imu) 500)
             @ snd (mb2_block (fst (cylExtrapTrkSam eng (innerTrack imu) 500)))) (slimmedMuons iEvent))
   \<and> extrapolations (calls_of (produce self iEvent iSetup)) =
     concat (map (\<lambda>imu. [Enter_surfExtrapTrkSam (innerTrack imu) 790,
                          Enter_surfExtrapTrkSam (innerTrack imu) (- 790),
                          Enter_cylExtrapTrkSam (innerTrack imu) 500]) (slimmedMuons iEvent))
   \<and> map (\<lambda>p. snd (snd p)) (filter (\<lambda>p. fst p = Along) (propagations (calls_of (produce self iEvent iSetup)))) =
     concat (map (\<lambda>imu. [Plane (Vec3 0 0 790) RotationType_default,
                          Plane (Vec3 0 0 (- 790)) RotationType_default,
                          Cylinder (Vec3 0 0 0) RotationType_default 500]) (slimmedMuons iEvent))"
proof -
  have states: "map tsos_me2_p (results_of (produce self iEvent iSetup)) =
           map (\<lambda>imu. fst (surfExtrapTrkSam eng (innerTrack imu) 790)) (slimmedMuons iEvent)"
    "map tsos_me2_n (results_of (produce self iEvent iSetup)) =
           map (\<lambda>imu. fst (surfExtrapTrkSam eng (innerTrack imu) (- 790))) (slimmedMuons iEvent)"
    "map tsos_mb2 (results_of (produce self iEvent iSetup)) =
           map (\<lambda>imu. fst (cylExtrapTrkSam eng (innerTrack imu) 500)) (slimmedMuons iEvent)"
    unfolding assms by (simp_all add: produce_results loop_body_unfold comp_def)
  have calls: "calls_of (produce self iEvent iSetup) =
           concat (map (\<lambda>imu.
               snd (surfExtrapTrkSam eng (innerTrack imu) 790)
             @ snd (me2_block (fst (surfExtrapTrkSam eng (innerTrack imu) 790)))
             @ snd (surfExtrapTrkSam eng (innerTrack imu) (- 790))
             @ snd (me2_block (fst (surfExtrapTrkSam eng (innerTrack imu) (- 790))))
             @ snd (cylExtrapTrkSam eng (innerTrack imu) 500)
             @ snd (mb2_block (fst (cylExtrapTrkSam eng (innerTrack imu) 500)))) (slimmedMuons iEvent))"
    unfolding assms by (simp add: produce_calls loop_body_unfold)
  have entries: "extrapolations (calls_of (produce self iEvent iSetup)) =
     concat (map (\<lambda>imu. [Enter_surfExtrapTrkSam (innerTrack imu) 790,
                          Enter_surfExtrapTrkSam (innerTrack imu) (- 790),
                          Enter_cylExtrapTrkSam (innerTrack imu) 500]) (slimmedMuons iEvent))"
    by (simp add: produce_calls extrapolations_concat comp_def extrapolations_loop_body)
  have targets: "map (\<lambda>p. snd (snd p)) (filter (\<lambda>p. fst p = Along) (propagations (calls_of (produce self iEvent iSetup)))) =
     concat (map (\<lambda>imu. [Plane (Vec3 0 0 790) RotationType_default,
                          Plane (Vec3 0 0 (- 790)) RotationType_default,
                          Cylinder (Vec3 0 0 0) RotationType_default 500]) (slimmedMuons iEvent))"
    by (simp add: produce_calls propagations_concat map_concat filter_concat comp_def
        along_targets_loop_body)
  from states calls entries targets show ?thesis by simp
qed

theorem produce_three_extrapolations_per_track_witness:
  "map tsos_me2_p (results_of (produce exampleModule
      \<lparr>slimmedMuons = [\<lparr>innerTrack = forwardTrack\<rparr>, \<lparr>innerTrack = barrelTrack\<rparr>]\<rparr> exampleSetup)) =
     [\<lparr>isValid = True, globalPosition = Vec3 3 4 790\<rparr>, TrajectoryStateOnSurface_default]
   \<and> map tsos_me2_n (results_of (produce exampleModule
      \<lparr>slimmedMuons = [\<lparr>innerTrack = forwardTrack\<rparr>, \<lparr>innerTrack = barrelTrack\<rparr>]\<rparr> exampleSetup)) =
     [\<lparr>isValid = True, globalPosition = Vec3 3 4 (- 790)\<rparr>, TrajectoryStateOnSurface_default]
   \<and> map tsos_mb2 (results_of (produce exampleModule
      \<lparr>slimmedMuons = [\<lparr>innerTrack = forwardTrack\<rparr>, \<lparr>innerTrack = barrelTrack\<rparr>]\<rparr> exampleSetup)) =
     [TrajectoryStateOnSurface_default, \<lparr>isValid = True, globalPosition = Vec3 500 0 10\<rparr>]
   \<and> extrapolations (calls_of (produce exampleModule
      \<lparr>slimmedMuons = [\<lparr>innerTrack = forwardTrack\<rparr>, \<lparr>innerTrack = barrelTrack\<rparr>]\<rparr> exampleSetup)) =
     [Enter_surfExtrapTrkSam forwardTrack 790, Enter_surfExtrapTrkSam forwardTrack (- 790),
      Enter_cylExtrapTrkSam forwardTrack 500,
      Enter_surfExtrapTrkSam barrelTrack 790, Enter_surfExtrapTrkSam barrelTrack (- 790),
      Enter_cylExtrapTrkSam barrelTrack 500]"
proof -
  note T = produce_three_extrapolations_per_track [OF refl, of exampleModule
      "\<lparr>slimmedMuons = [\<lparr>innerTrack = forwardTrack\<rparr>, \<lparr>innerTrack = barrelTrack\<rparr>]\<rparr>" exampleSetup]
  have 1: "map tsos_me2_p (results_of (produce exampleModule
      \<lparr>slimmedMuons = [\<lparr>innerTrack = forwardTrack\<rparr>, \<lparr>innerTrack = barrelTrack\<rparr>]\<rparr> exampleSetup)) =
     [\<lparr>isValid = True, globalPosition = Vec3 3 4 790\<rparr>, TrajectoryStateOnSurface_default]"
    using T [THEN conjunct1] by (simp add: ex_engine_fetched ex_forward ex_barrel)
  have 2: "map tsos_me2_n (results_of (produce exampleModule
      \<lparr>slimmedMuons = [\<lparr>innerTrack = forwardTrack\<rparr>, \<lparr>innerTrack = barrelTrack\<rparr>]\<rparr> exampleSetup)) =
     [\<lparr>isValid = True, globalPosition = Vec3 3 4 (- 790)\<rparr>, TrajectoryStateOnSurface_default]"
    using T [THEN conjunct2, THEN conjunct1] by (simp add: ex_engine_fetched ex_forward ex_barrel)
  have 3: "map tsos_mb2 (results_of (produce exampleModule
      \<lparr>slimmedMuons = [\<lparr>innerTrack = forwardTrack\<rparr>, \<lparr>innerTrack = barrelTrack\<rparr>]\<rparr> exampleSetup)) =
     [TrajectoryStateOnSurface_default, \<lparr>isValid = True, globalPosition = Vec3 500 0 10\<rparr>]"
    using T [THEN conjunct2, THEN conjunct2, THEN conjunct1]
    by (simp add: ex_engine_fetched ex_forward ex_barrel)
  have 4: "extrapolations (calls_of (produce exampleModule
      \<lparr>slimmedMuons = [\<lparr>innerTrack = forwardTrack\<rparr>, \<lparr>innerTrack = barrelTrack\<rparr>]\<rparr> exampleSetup)) =
     [Enter_surfExtrapTrkSam forwardTrack 790, Enter_surfExtrapTrkSam forwardTrack (- 790),
      Enter_cylExtrapTrkSam forwardTrack 500,
      Enter_surfExtrapTrkSam barrelTrack 790, Enter_surfExtrapTrkSam barrelTrack (- 790),
      Enter_cylExtrapTrkSam barrelTrack 500]"
    using T [THEN conjunct2, THEN conjunct2, THEN conjunct2, THEN conjunct2, THEN conjunct1]
    by simp
  from 1 2 3 4 show ?thesis by blast
qed

section \<open>The driver: radius and cosine of a valid state\<close>



section \<open>The driver: an invalid state\<close>

text \<open>
  Claim C5 as stated asks that for an invalid extrapolation the driver's derived output
  equal the sentinel \<open>-999999\<close>. The \<open>else\<close> branches of the source are empty (the
  \<open>push_back(-999999)\<close> lines are comments), so nothing is produced there. On the
  transverse track the extrapolation to the plane at \<open>790\<close> is invalid and the block has
  no locals: there is no radius, and so none equal to \<open>-999999\<close>.
\<close>

theorem invalid_state_sentinel_counterexample:
  "\<not> isValid (fst (surfExtrapTrkSam
        (fetch exampleModule \<lparr>slimmedMuons = [\<lparr>innerTrack = transverseTrack\<rparr>]\<rparr> exampleSetup)
        transverseTrack 790))
   \<and> me2_p (results_of (produce exampleModule
        \<lparr>slimmedMuons = [\<lparr>innerTrack = transverseTrack\<rparr>]\<rparr> exampleSetup) ! 0) = None
   \<and> map_option rr (me2_p (results_of (produce exampleModule
        \<lparr>slimmedMuons = [\<lparr>innerTrack = transverseTrack\<rparr>]\<rparr> exampleSetup) ! 0)) \<noteq> Some (- 999999)"
  by (simp add: ex_result ex_result_transverse ex_engine_fetched ex_transverse
      TrajectoryStateOnSurface_default_def)

text \<open>
  Claim C5, amended. For every track and each of its three targets: when the state the
  extrapolation returned is invalid, the driver computes nothing for that target. The
  block has no locals, neither the sentinel nor a number computed from the meaningless
  position.
\<close>

theorem invalid_state_no_locals:
  assumes "i < length (slimmedMuons iEvent)"
    and "r = results_of (produce self iEvent iSetup) ! i"
    and "eng = fetch self iEvent iSetup"
    and "tr = innerTrack (slimmedMuons iEvent ! i)"
  shows "(\<not> isValid (fst (surfExtrapTrkSam eng tr 790)) \<longrightarrow> me2_p r = None)
       \<and> (\<not> isValid (fst (surfExtrapTrkSam eng tr (- 790))) \<longrightarrow> me2_n r = None)
       \<and> (\<not> isValid (fst (cylExtrapTrkSam eng tr 500)) \<longrightarrow> mb2 r = None)"
  using produce_result_states [OF assms] produce_result_locals [OF assms(1,2)]
  by simp

theorem invalid_state_no_locals_witness:
  "\<not> isValid (fst (surfExtrapTrkSam
        (fetch exampleModule \<lparr>slimmedMuons = [\<lparr>innerTrack = barrelTrack\<rparr>]\<rparr> exampleSetup)
        barrelTrack 790))
   \<and> me2_p (results_of (produce exampleModule
        \<lparr>slimmedMuons = [\<lparr>innerTrack = barrelTrack\<rparr>]\<rparr> exampleSetup) ! 0) = None
   \<and> me2_n (results_of (produce exampleModule
        \<lparr>slimmedMuons = [\<lparr>innerTrack = barrelTrack\<rparr>]\<rparr> exampleSetup) ! 0) = None"
  using invalid_state_no_locals [of 0 "\<lparr>slimmedMuons = [\<lparr>innerTrack = barrelTrack\<rparr>]\<rparr>"
      _ exampleModule exampleSetup _ _, OF _ refl refl refl]
  by (simp add: ex_engine_fetched ex_barrel TrajectoryStateOnSurface_default_def)

section \<open>The driver: positions are read from valid states only\<close>

text \<open>
  Claim C7. Every call of \<open>globalPosition()\<close> the driver makes during an event is made on
  a valid state: the states whose position was read, collected from the log of the whole
  event, are all valid. The driver reads no momentum of a state at all.
\<close>

theorem position_read_only_when_valid:
  "list_all isValid (position_reads (calls_of (produce self iEvent iSetup)))"
  by (simp add: produce_calls position_reads_concat list_all_iff)
     (use position_reads_loop_body_valid in \<open>auto simp: list_all_iff\<close>)

theorem position_read_only_when_valid_witness:
  "position_reads (calls_of (produce exampleModule
      \<lparr>slimmedMuons = [\<lparr>innerTrack = forwardTrack\<rparr>]\<rparr> exampleSetup)) =
     [\<lparr>isValid = True, globalPosition = Vec3 3 4 790\<rparr>,
      \<lparr>isValid = True, globalPosition = Vec3 3 4 790\<rparr>,
      \<lparr>isValid = True, globalPosition = Vec3 3 4 (- 790)\<rparr>,
      \<lparr>isValid = True, globalPosition = Vec3 3 4 (- 790)\<rparr>]
   \<and> list_all isValid (position_reads (calls_of (produce exampleModule
      \<lparr>slimmedMuons = [\<lparr>innerTrack = forwardTrack\<rparr>]\<rparr> exampleSetup)))"
  using position_read_only_when_valid [of exampleModule
      "\<lparr>slimmedMuons = [\<lparr>innerTrack = forwardTrack\<rparr>]\<rparr>" exampleSetup]
  by (simp add: produce_calls position_reads_loop_body ex_engine_fetched ex_forward
      TrajectoryStateOnSurface_default_def)

section \<open>The driver: a failed extrapolation does not stop the loop\<close>

text \<open>
  Claim C8 as stated includes that a track with no valid extrapolation to one target
  still yields the sentinel as output for that target. In a run over two muons, the
  extrapolation of the first track to the cylinder is invalid; the block for that target
  has no locals, so no \<open>zz\<close> equal to \<open>-999999\<close>.
\<close>

theorem invalid_target_sentinel_counterexample:
  "\<not> isValid (tsos_mb2 (results_of (produce exampleModule
        \<lparr>slimmedMuons = [\<lparr>innerTrack = forwardTrack\<rparr>, \<lparr>innerTrack = axisTrack\<rparr>]\<rparr> exampleSetup) ! 0))
   \<and> mb2 (results_of (produce exampleModule
        \<lparr>slimmedMuons = [\<lparr>innerTrack = forwardTrack\<rparr>, \<lparr>innerTrack = axisTrack\<rparr>]\<rparr> exampleSetup) ! 0) = None
   \<and> map_option zz (mb2 (results_of (produce exampleModule
        \<lparr>slimmedMuons = [\<lparr>innerTrack = forwardTrack\<rparr>, \<lparr>innerTrack = axisTrack\<rparr>]\<rparr> exampleSetup) ! 0))
       \<noteq> Some (- 999999)"
  by (simp add: ex_result ex_result_forward TrajectoryStateOnSurface_default_def)

text \<open>
  Claim C8, amended. An invalid extrapolation to one target does not abort processing.
  The driver produces one result for every track of the collection; for the \<open>i\<close>-th track
  all three extrapolations are performed, each being the engine's answer for its target
  whatever the validity of the other two; and for each target on its own the block has
  locals exactly when that target's state is valid, and none (no sentinel either) when it
  is invalid.
\<close>

theorem invalid_target_does_not_abort:
  assumes "i < length (slimmedMuons iEvent)"
    and "r = results_of (produce self iEvent iSetup) ! i"
    and "eng = fetch self iEvent iSetup"
    and "tr = innerTrack (slimmedMuons iEvent ! i)"
  shows "length (results_of (produce self iEvent iSetup)) = length (slimmedMuons iEvent)
       \<and> tsos_me2_p r = fst (surfExtrapTrkSam eng tr 790)
       \<and> tsos_me2_n r = fst (surfExtrapTrkSam eng tr (- 790))
       \<and> tsos_mb2 r = fst (cylExtrapTrkSam eng tr 500)
       \<and> (me2_p r = None \<longleftrightarrow> \<not> isValid (tsos_me2_p r))
       \<and> (me2_n r = None \<longleftrightarrow> \<not> isValid (tsos_me2_n r))
       \<and> (mb2 r = None \<longleftrightarrow> \<not> isValid (tsos_mb2 r))"
  using produce_result_states [OF assms] produce_result_locals [OF assms(1,2)]
  by (simp add: produce_results)

theorem invalid_target_does_not_abort_witness:
  "length (results_of (produce exampleModule
        \<lparr>slimmedMuons = [\<lparr>innerTrack = forwardTrack\<rparr>, \<lparr>innerTrack = barrelTrack\<rparr>]\<rparr> exampleSetup)) = 2
   \<and> \<not> isValid (tsos_mb2 (results_of (produce exampleModule
        \<lparr>slimmedMuons = [\<lparr>innerTrack = forwardTrack\<rparr>, \<lparr>innerTrack = barrelTrack\<rparr>]\<rparr> exampleSetup) ! 0))
   \<and> mb2 (results_of (produce exampleModule
        \<lparr>slimmedMuons = [\<lparr>innerTrack = forwardTrack\<rparr>, \<lparr>innerTrack = barrelTrack\<rparr>]\<rparr> exampleSetup) ! 0) = None
   \<and> isValid (tsos_me2_p (results_of (produce exampleModule
        \<lparr>slimmedMuons = [\<lparr>innerTrack = forwardTrack\<rparr>, \<lparr>innerTrack = barrelTrack\<rparr>]\<rparr> exampleSetup) ! 0))
   \<and> me2_p (results_of (produce exampleModule
        \<lparr>slimmedMuons = [\<lparr>innerTrack = forwardTrack\<rparr>, \<lparr>innerTrack = barrelTrack\<rparr>]\<rparr> exampleSetup) ! 0) \<noteq> None"
  using invalid_target_does_not_abort [of 0
      "\<lparr>slimmedMuons = [\<lparr>innerTrack = forwardTrack\<rparr>, \<lparr>innerTrack = barrelTrack\<rparr>]\<rparr>"
      _ exampleModule exampleSetup _ _, OF _ refl refl refl]
  by (simp add: ex_engine_fetched ex_forward TrajectoryStateOnSurface_default_def)

section \<open>The driver: no state carried from one track to the next\<close>

text \<open>
  Claim C9. What the driver computes for a track (the three states and the locals of the
  three blocks) depends on that track and on the field and propagators of the event
  setup only. For two events, processed from any two states of the module with the same
  setup, whose collections hold the same track at the positions \<open>i\<close> and \<open>j\<close>, the result
  at \<open>i\<close> in the first run equals the result at \<open>j\<close> in the second, whatever the other
  tracks and their order.
\<close>

theorem track_result_independent_of_collection:
  assumes "i < length (slimmedMuons iEvent)"
    and "j < length (slimmedMuons iEvent')"
    and "innerTrack (slimmedMuons iEvent ! i) = innerTrack (slimmedMuons iEvent' ! j)"
  shows "results_of (produce self iEvent iSetup) ! i = results_of (produce self' iEvent' iSetup) ! j"
proof -
  have "fst (snd (loop_body (fetch self iEvent iSetup) (slimmedMuons iEvent ! i))) =
        fst (snd (loop_body (fetch self' iEvent' iSetup) (slimmedMuons iEvent ! i)))"
    by (simp add: loop_body_handles_only [of "fetch self iEvent iSetup" "fetch self' iEvent' iSetup"]
        fetch_handles)
  also have "\<dots> = fst (snd (loop_body (fetch self' iEvent' iSetup) (slimmedMuons iEvent' ! j)))"
    using assms(3) by (simp add: loop_body_unfold)
  finally show ?thesis
    using assms(1,2) by (simp add: produce_result_nth)
qed

theorem track_result_independent_of_collection_witness:
  "results_of (produce exampleModule
      \<lparr>slimmedMuons = [\<lparr>innerTrack = axisTrack\<rparr>, \<lparr>innerTrack = forwardTrack\<rparr>]\<rparr> exampleSetup) ! 1
   = results_of (produce exampleEngine
      \<lparr>slimmedMuons = [\<lparr>innerTrack = forwardTrack\<rparr>]\<rparr> exampleSetup) ! 0"
  using track_result_independent_of_collection [of 1
      "\<lparr>slimmedMuons = [\<lparr>innerTrack = axisTrack\<rparr>, \<lparr>innerTrack = forwardTrack\<rparr>]\<rparr>" 0
      "\<lparr>slimmedMuons = [\<lparr>innerTrack = forwardTrack\<rparr>]\<rparr>" exampleModule exampleSetup exampleEngine]
  by simp

section \<open>The driver: the divisor of the cosine\<close>




end
